theory Spec2Isabelle
  imports Main "HOL-Library.Multiset" "HOL-Library.AList"
begin

section \<open>Entity data, template schemas and the formula engine\<close>

text \<open>
  The values an entity's data object holds: what the form widgets of
  \<^verbatim>\<open>CreateEntityModal\<close> store (strings, numbers, booleans, arrays of option
  strings) and what a formula may return. \<open>JNum\<close> carries the numbers that are
  integers; \<open>JNaN\<close> is the not-a-number value. An array or object is held by
  reference: \<open>JRef a\<close> is the object with identity \<open>a\<close>. The spread
  \<^verbatim>\<open>{ ...formData }\<close> and the copy into \<^verbatim>\<open>context\<close> are shallow, so
  \<^verbatim>\<open>formData\<close>, \<^verbatim>\<open>finalData\<close> and the context share these objects; what an
  object contains is part of the state of the JavaScript engine.
\<close>

datatype jsval =
    JUndefined
  | JNull
  | JBool bool
  | JNum int
  | JNaN
  | JStr string
  | JRef nat

text \<open>
  \<^verbatim>\<open>formData\<close> and \<^verbatim>\<open>finalData\<close>: the own properties of an object, keyed by
  field name, in the order in which they were created. The order is part of the object:
  \<^verbatim>\<open>Object.keys\<close> and \<^verbatim>\<open>JSON.stringify\<close> enumerate the keys in an order that is
  a function of it (keys that are array indices first, in ascending order, then the
  others as created), and a formula can read the order of the keys of its context.
  \<open>map_of d k\<close> is the value under the key \<open>k\<close>, \<open>own_keys d\<close> are the keys.
  The keys of an object are distinct; a list that repeats a key is read as the object of
  the first entry of each key.
\<close>

type_synonym data = "(string \<times> jsval) list"

definition own_keys :: "data \<Rightarrow> string set" where
  "own_keys d = fst ` set d"

text \<open>\<^verbatim>\<open>fieldTypes\<close> of \<^verbatim>\<open>CreateTemplateModal\<close>.\<close>

datatype field_type = TString | TNumber | TBoolean | TSelect | TMultiselect | TComputed | TImage

text \<open>
  An optional property of an object: \<open>Absent\<close> when the object has no such key,
  \<open>Undefined\<close> when the key is there and holds \<^verbatim>\<open>undefined\<close>, \<open>Value v\<close>
  otherwise.
\<close>

datatype 'a property = Absent | Undefined | Value 'a

record field =
  name :: string
  ftype :: field_type
  options :: "string list property"
  formula :: "string property"

text \<open>
  The guard \<^verbatim>\<open>field.type === 'computed' && field.formula\<close>: an absent, undefined or
  empty formula is falsy.
\<close>

definition has_formula :: "field \<Rightarrow> bool" where
  "has_formula f =
     (ftype f = TComputed \<and> (case formula f of Value s \<Rightarrow> s \<noteq> [] | _ \<Rightarrow> False))"

definition formula_src :: "field \<Rightarrow> string" where
  "formula_src f = (case formula f of Value s \<Rightarrow> s | _ \<Rightarrow> [])"

text \<open>
  Lines 30 to 69 of \<^verbatim>\<open>handleSubmit\<close> hand the formula to the JavaScript engine:
  the text is stripped of comments, the entries of \<^verbatim>\<open>finalData\<close> are copied into a
  new object \<^verbatim>\<open>context\<close> (by assignments, in the order in which the engine
  enumerates the keys), the text is wrapped in a function body that declares one
  constant per key of \<^verbatim>\<open>context\<close>, compiled with \<^verbatim>\<open>new Function\<close> and called.
  The engine either returns a value or throws. What it throws matters to the
  \<^verbatim>\<open>catch\<close> block only through \<^verbatim>\<open>e.message\<close>: \<open>ErrorObj m\<close> is a thrown value
  whose \<^verbatim>\<open>message\<close>, put into a template literal, reads as the text \<open>m\<close> (an
  \<^verbatim>\<open>Error\<close> object with that message; for a thrown string or number, which has no
  such property, the text is \<^verbatim>\<open>undefined\<close>); \<open>Nullish\<close> is a thrown \<^verbatim>\<open>null\<close>
  or \<^verbatim>\<open>undefined\<close>, on which reading \<^verbatim>\<open>.message\<close> raises a TypeError.
\<close>

datatype thrown = ErrorObj string | Nullish

datatype outcome = Returns jsval | Throws thrown

text \<open>
  The assignment \<^verbatim>\<open>finalData[field.name] = value\<close> (lines 71 and 77) writes the
  own property of that name when \<^verbatim>\<open>finalData\<close> has one. When it has none, the
  engine looks the name up on the prototype of \<^verbatim>\<open>finalData\<close>: it creates the
  property, unless the prototype chain has a setter under that name, which is called
  instead and creates nothing, or forbids the write, in which case the assignment
  throws (the module is strict code). On the object the spread creates the chain is
  \<^verbatim>\<open>Object.prototype\<close>, which has one setter, \<^verbatim>\<open>__proto__\<close>: it discards a
  string, number or boolean and makes an object or \<^verbatim>\<open>null\<close> the new prototype of
  \<^verbatim>\<open>finalData\<close>. A formula can add properties to \<^verbatim>\<open>Object.prototype\<close>, so what
  the chain holds is engine state.
\<close>

datatype put_outcome = Created | Swallowed | Reparented | PutThrows thrown

text \<open>
  The engine is a parameter of the model. It runs arbitrary JavaScript, so it reads and
  writes global state \<open>'w\<close>. \<open>call\<close> stands for lines 30 to 69: it takes the
  formula text, \<^verbatim>\<open>finalData\<close> and the global state, and returns the outcome and the
  new global state. The formula sees a copy, so it cannot assign to \<^verbatim>\<open>finalData\<close>
  itself; it can change the contents of an object that \<^verbatim>\<open>finalData\<close> refers to, which
  is a change of the global state. \<open>put\<close> is the assignment of a value to a name that
  is not an own property of \<^verbatim>\<open>finalData\<close>; its first argument is the prototype of
  \<^verbatim>\<open>finalData\<close> if an earlier assignment has replaced it (\<open>None\<close> as long as it is
  \<^verbatim>\<open>Object.prototype\<close>). An engine call is assumed to return, and so are the calls
  of \<^verbatim>\<open>console.error\<close> in the \<^verbatim>\<open>catch\<close> block.
\<close>

record 'w engine =
  call :: "string \<Rightarrow> data \<Rightarrow> 'w \<Rightarrow> outcome \<times> 'w"
  put :: "jsval option \<Rightarrow> string \<Rightarrow> jsval \<Rightarrow> 'w \<Rightarrow> put_outcome \<times> 'w"

text \<open>
  The state the loop works on: \<^verbatim>\<open>finalData\<close>, the component's \<^verbatim>\<open>error\<close>
  state (written by \<^verbatim>\<open>setError\<close>), the engine's global state and the prototype of
  \<^verbatim>\<open>finalData\<close>, if replaced.
\<close>

record 'w pass_state =
  finalData :: data
  uiError :: "string option"
  world :: 'w
  proto :: "jsval option"

text \<open>
  What leaves the loop: the TypeError of reading \<^verbatim>\<open>message\<close> on a nullish value, or
  what the assignment of line 77 throws.
\<close>

datatype js_error = TypeError | Uncaught thrown

definition error_marker :: "string \<Rightarrow> jsval" where
  "error_marker m = JStr (''ERROR: '' @ m)"

definition ui_message :: "string \<Rightarrow> string \<Rightarrow> string" where
  "ui_message n m =
     ''Error in formula for '' @ [CHR 0x22] @ n @ [CHR 0x22] @ '': '' @ m
       @ ''. Check the console for more details.''"

text \<open>
  \<^verbatim>\<open>finalData[n] = v\<close>. An own property is updated in place; a created one comes
  last.
\<close>

definition store ::
  "'w engine \<Rightarrow> 'w pass_state \<Rightarrow> string \<Rightarrow> jsval \<Rightarrow> (thrown \<times> 'w) + 'w pass_state" where
  "store eng st n v =
     (if n \<in> own_keys (finalData st)
      then Inr (st\<lparr>finalData := AList.update n v (finalData st)\<rparr>)
      else
        (case put eng (proto st) n v (world st) of
           (Created, w) \<Rightarrow> Inr (st\<lparr>finalData := finalData st @ [(n, v)], world := w\<rparr>)
         | (Swallowed, w) \<Rightarrow> Inr (st\<lparr>world := w\<rparr>)
         | (Reparented, w) \<Rightarrow> Inr (st\<lparr>world := w, proto := Some v\<rparr>)
         | (PutThrows e, w) \<Rightarrow> Inl (e, w)))"

text \<open>
  The \<^verbatim>\<open>catch\<close> block (lines 72 to 78) on the caught value \<open>e\<close>:
  \<^verbatim>\<open>setError\<close> gets the message and the field is assigned the string
  \<^verbatim>\<open>ERROR: \<close> followed by the message. Both read \<^verbatim>\<open>e.message\<close>, so a nullish
  caught value makes the block itself raise, before \<^verbatim>\<open>setError\<close> is called; nothing
  catches that, nor what the assignment throws.
\<close>

definition caught :: "'w engine \<Rightarrow> field \<Rightarrow> 'w pass_state \<Rightarrow> thrown \<Rightarrow> js_error + 'w pass_state" where
  "caught eng f st e =
     (case e of
        Nullish \<Rightarrow> Inl TypeError
      | ErrorObj m \<Rightarrow>
          (case store eng (st\<lparr>uiError := Some (ui_message (name f) m)\<rparr>) (name f) (error_marker m) of
             Inl (e', w) \<Rightarrow> Inl (Uncaught e')
           | Inr st' \<Rightarrow> Inr st'))"

text \<open>
  The body of the \<^verbatim>\<open>forEach\<close> callback (lines 28 to 79). A returned value is
  assigned to the field's name, inside the \<^verbatim>\<open>try\<close> block: what the call or that
  assignment throws is caught.
\<close>

definition evaluate_field :: "'w engine \<Rightarrow> field \<Rightarrow> 'w pass_state \<Rightarrow> js_error + 'w pass_state" where
  "evaluate_field eng f st =
     (if has_formula f then
        (case call eng (formula_src f) (finalData st) (world st) of
           (Returns v, w) \<Rightarrow>
             (case store eng (st\<lparr>world := w\<rparr>) (name f) v of
                Inl (e, w') \<Rightarrow> caught eng f (st\<lparr>world := w'\<rparr>) e
              | Inr st' \<Rightarrow> Inr st')
         | (Throws e, w) \<Rightarrow> caught eng f (st\<lparr>world := w\<rparr>) e)
      else Inr st)"

text \<open>\<^verbatim>\<open>template.schema.forEach\<close> (lines 27 to 80): an exception ends the loop.\<close>

fun evaluate_fields :: "'w engine \<Rightarrow> field list \<Rightarrow> 'w pass_state \<Rightarrow> js_error + 'w pass_state" where
  "evaluate_fields eng [] st = Inr st"
| "evaluate_fields eng (f # fs) st =
     (case evaluate_field eng f st of
        Inl e \<Rightarrow> Inl e
      | Inr st' \<Rightarrow> evaluate_fields eng fs st')"

text \<open>
  Lines 24 to 80: \<^verbatim>\<open>finalData\<close> starts as a copy of \<^verbatim>\<open>formData\<close>, with
  \<^verbatim>\<open>Object.prototype\<close> as its prototype, then the loop runs. (The spread creates
  the properties of the copy in the order in which the engine enumerates those of
  \<^verbatim>\<open>formData\<close>: the copy may differ from \<^verbatim>\<open>formData\<close> in the order of
  creation of its keys, but not in any enumeration of them, now or after more keys
  are created.) \<open>ui\<close> is the \<^verbatim>\<open>error\<close> state and \<open>w\<close> the global state at the call.
  The payload of line 83 holds \<^verbatim>\<open>finalData\<close> as the loop leaves it.
\<close>

definition handleSubmit_data ::
  "'w engine \<Rightarrow> field list \<Rightarrow> data \<Rightarrow> string option \<Rightarrow> 'w \<Rightarrow> js_error + 'w pass_state" where
  "handleSubmit_data eng schema formData ui w =
     evaluate_fields eng schema \<lparr>finalData = formData, uiError = ui, world = w, proto = None\<rparr>"

section \<open>The engine on the formulas of the examples\<close>

text \<open>
  The general theorems below hold for every engine. The examples need a concrete one:
  \<open>js_engine\<close> tabulates what a JavaScript engine does on a handful of formula
  texts. The texts have no comment, no line break and no surrounding blanks, so the
  cleaning of lines 34 to 42 leaves them as they are. The global state is made of the
  properties that formulas have added to the global object and of the contents of the
  arrays of option strings that the data refer to.

  The formulas are expressions over identifiers, integer and boolean literals,
  \<^verbatim>\<open>+\<close>, \<^verbatim>\<open>*\<close> and \<^verbatim>\<open>||\<close>. Operands are evaluated left to right; an
  exception ends the evaluation. Where the model cannot give the engine's answer (a
  result beyond the integers a double holds exactly, a string that may read as a number
  with a fraction, a reference to no array) the functions return \<open>None\<close>.
\<close>

record js_world =
  global :: "string \<rightharpoonup> jsval"
  arrays :: "nat \<rightharpoonup> string list"

definition pristine :: js_world where
  "pristine = \<lparr>global = Map.empty, arrays = Map.empty\<rparr>"

datatype expr =
    Var string
  | NumLit int
  | BoolLit bool
  | Add expr expr
  | Mul expr expr
  | Or expr expr

definition safe_int :: "int \<Rightarrow> bool" where
  "safe_int n = (\<bar>n\<bar> \<le> 2 ^ 53)"

fun digits :: "nat \<Rightarrow> string" where
  "digits n =
     (if n < 10 then [''0123456789'' ! n]
      else digits (n div 10) @ [''0123456789'' ! (n mod 10)])"

declare digits.simps [simp del]

definition show_int :: "int \<Rightarrow> string" where
  "show_int n = (if n < 0 then ''-'' @ digits (nat (- n)) else digits (nat n))"

text \<open>\<^verbatim>\<open>Array.prototype.join\<close> with a comma, on an array of strings.\<close>

fun join_comma :: "string list \<Rightarrow> string" where
  "join_comma [] = []"
| "join_comma [x] = x"
| "join_comma (x # y # ys) = x @ '','' @ join_comma (y # ys)"

text \<open>
  ToPrimitive: an array of strings converts to its elements joined by commas, without
  effect.
\<close>

fun to_primitive :: "js_world \<Rightarrow> jsval \<Rightarrow> jsval option" where
  "to_primitive w (JRef a) = map_option (\<lambda>xs. JStr (join_comma xs)) (arrays w a)"
| "to_primitive w v = Some v"

text \<open>ToString of a primitive value.\<close>

fun to_string :: "jsval \<Rightarrow> string option" where
  "to_string (JStr s) = Some s"
| "to_string (JNum n) = (if safe_int n then Some (show_int n) else None)"
| "to_string JNaN = Some ''NaN''"
| "to_string (JBool b) = Some (if b then ''true'' else ''false'')"
| "to_string JNull = Some ''null''"
| "to_string JUndefined = Some ''undefined''"
| "to_string (JRef a) = None"

text \<open>
  The characters a string that reads as a number can contain: blanks, digits, signs,
  the point, the exponent and radix letters, hexadecimal digits and the letters
  of \<^verbatim>\<open>Infinity\<close>. A string with any other character reads as NaN.
\<close>

definition numeric_char :: "char \<Rightarrow> bool" where
  "numeric_char c =
     (c \<in> set ''0123456789+-.eExXoObBaAcCdDfFInity''
      \<or> (of_char c :: nat) \<le> 32 \<or> 127 \<le> (of_char c :: nat))"

text \<open>ToNumber of a primitive value.\<close>

fun to_number :: "jsval \<Rightarrow> jsval option" where
  "to_number JUndefined = Some JNaN"
| "to_number JNull = Some (JNum 0)"
| "to_number (JBool b) = Some (JNum (if b then 1 else 0))"
| "to_number (JNum n) = (if safe_int n then Some (JNum n) else None)"
| "to_number JNaN = Some JNaN"
| "to_number (JStr s) =
     (if s = [] then Some (JNum 0)
      else if list_ex (\<lambda>c. \<not> numeric_char c) s then Some JNaN
      else None)"
| "to_number (JRef a) = None"

fun is_string :: "jsval \<Rightarrow> bool" where
  "is_string (JStr s) = True"
| "is_string v = False"

definition arith :: "(int \<Rightarrow> int \<Rightarrow> int) \<Rightarrow> jsval \<Rightarrow> jsval \<Rightarrow> jsval option" where
  "arith f a b =
     (case (to_number a, to_number b) of
        (Some (JNum m), Some (JNum n)) \<Rightarrow> if safe_int (f m n) then Some (JNum (f m n)) else None
      | (Some JNaN, Some _) \<Rightarrow> Some JNaN
      | (Some _, Some JNaN) \<Rightarrow> Some JNaN
      | _ \<Rightarrow> None)"

text \<open>
  The operator \<^verbatim>\<open>+\<close> on primitive operands: string concatenation when either is a
  string, addition of numbers otherwise. The operator \<^verbatim>\<open>*\<close> multiplies numbers.
  Both convert their operands to primitives first.
\<close>

definition prim_add :: "jsval \<Rightarrow> jsval \<Rightarrow> jsval option" where
  "prim_add a b =
     (if is_string a \<or> is_string b then
        (case (to_string a, to_string b) of
           (Some s, Some t) \<Rightarrow> Some (JStr (s @ t))
         | _ \<Rightarrow> None)
      else arith (+) a b)"

definition js_add :: "js_world \<Rightarrow> jsval \<Rightarrow> jsval \<Rightarrow> jsval option" where
  "js_add w a b =
     (case (to_primitive w a, to_primitive w b) of
        (Some a', Some b') \<Rightarrow> prim_add a' b'
      | _ \<Rightarrow> None)"

definition js_mul :: "js_world \<Rightarrow> jsval \<Rightarrow> jsval \<Rightarrow> jsval option" where
  "js_mul w a b =
     (case (to_primitive w a, to_primitive w b) of
        (Some a', Some b') \<Rightarrow> arith (*) a' b'
      | _ \<Rightarrow> None)"

fun truthy :: "jsval \<Rightarrow> bool" where
  "truthy JUndefined = False"
| "truthy JNull = False"
| "truthy (JBool b) = b"
| "truthy (JNum n) = (n \<noteq> 0)"
| "truthy JNaN = False"
| "truthy (JStr s) = (s \<noteq> [])"
| "truthy (JRef a) = True"

text \<open>
  An identifier is one of the constants declared from the context, else a property of
  the global object, else reading it throws a ReferenceError. (V8's and SpiderMonkey's
  wording of the message.)
\<close>

definition lookup_var :: "data \<Rightarrow> js_world \<Rightarrow> string \<Rightarrow> outcome" where
  "lookup_var c w x =
     (case map_of c x of
        Some v \<Rightarrow> Returns v
      | None \<Rightarrow>
          (case global w x of
             Some v \<Rightarrow> Returns v
           | None \<Rightarrow> Throws (ErrorObj (x @ '' is not defined''))))"

fun binop :: "(jsval \<Rightarrow> jsval \<Rightarrow> jsval option) \<Rightarrow> outcome option \<Rightarrow> outcome option \<Rightarrow> outcome option" where
  "binop f (Some (Returns a)) (Some (Returns b)) = map_option Returns (f a b)"
| "binop f (Some (Returns a)) r = r"
| "binop f r _ = r"

fun eval_expr :: "expr \<Rightarrow> data \<Rightarrow> js_world \<Rightarrow> outcome option" where
  "eval_expr (Var x) c w = Some (lookup_var c w x)"
| "eval_expr (NumLit n) c w = Some (Returns (JNum n))"
| "eval_expr (BoolLit b) c w = Some (Returns (JBool b))"
| "eval_expr (Add a b) c w = binop (js_add w) (eval_expr a c w) (eval_expr b c w)"
| "eval_expr (Mul a b) c w = binop (js_mul w) (eval_expr a c w) (eval_expr b c w)"
| "eval_expr (Or a b) c w =
     (case eval_expr a c w of
        Some (Returns v) \<Rightarrow> if truthy v then Some (Returns v) else eval_expr b c w
      | r \<Rightarrow> r)"

text \<open>
  The formula texts and the expressions they are. The identifiers \<^verbatim>\<open>a\<close>, \<^verbatim>\<open>b\<close>,
  \<^verbatim>\<open>c\<close>, \<^verbatim>\<open>x\<close> and \<^verbatim>\<open>y\<close> are not names a browser defines.
\<close>

definition parse_formula :: "string \<Rightarrow> expr option" where
  "parse_formula s =
     (if s = ''a + b'' then Some (Add (Var ''a'') (Var ''b''))
      else if s = ''a + 1'' then Some (Add (Var ''a'') (NumLit 1))
      else if s = ''x + 1'' then Some (Add (Var ''x'') (NumLit 1))
      else if s = ''y + 1'' then Some (Add (Var ''y'') (NumLit 1))
      else if s = ''x * 2'' then Some (Mul (Var ''x'') (NumLit 2))
      else if s = ''a + c'' then Some (Add (Var ''a'') (Var ''c''))
      else if s = ''c'' then Some (Var ''c'')
      else if s = ''true || c'' then Some (Or (BoolLit True) (Var ''c''))
      else None)"

text \<open>
  Three formulas with effects: an arrow function called at once that throws
  \<^verbatim>\<open>null\<close>; an assignment that counts the evaluations in the property \<^verbatim>\<open>n\<close> of
  the global object (its value is the value assigned); and a call of
  \<^verbatim>\<open>Array.prototype.reverse\<close>, which reverses the array bound to \<^verbatim>\<open>tags\<close> in
  place and returns it, followed by the length of the array.
\<close>

definition throw_null :: string where
  "throw_null = ''(() => { throw null })()''"

definition count_calls :: string where
  "count_calls = ''globalThis.n = (globalThis.n || 0) + 1''"

definition reverse_tags :: string where
  "reverse_tags = ''tags.reverse().length''"

text \<open>
  The generated function declares a constant for every key of the context, so it
  compiles only if every key is an identifier and not a reserved word, and it reads
  \<^verbatim>\<open>context\<close> only if no key has that name. The table is for contexts whose keys
  are among the field names of the examples, which are such.
\<close>

definition example_names :: "string list" where
  "example_names =
     [''a'', ''b'', ''x'', ''y'', ''z'', ''n'', ''t'', ''flag'', ''total'', ''tags'', ''next'']"

definition js_table :: "string \<Rightarrow> data \<Rightarrow> js_world \<Rightarrow> (outcome \<times> js_world) option" where
  "js_table s c w =
     (if \<not> list_all (\<lambda>k. k \<in> set example_names) (map fst c) then None
      else if s = throw_null then Some (Throws Nullish, w)
      else if s = count_calls then
        (let cur = (case global w ''n'' of None \<Rightarrow> JNum 0 | Some v \<Rightarrow> if truthy v then v else JNum 0)
         in map_option (\<lambda>r. (Returns r, w\<lparr>global := (global w)(''n'' \<mapsto> r)\<rparr>)) (js_add w cur (JNum 1)))
      else if s = reverse_tags then
        (case map_of c ''tags'' of
           Some (JRef a) \<Rightarrow>
             (case arrays w a of
                Some xs \<Rightarrow>
                  Some (Returns (JNum (int (length xs))), w\<lparr>arrays := (arrays w)(a \<mapsto> rev xs)\<rparr>)
              | None \<Rightarrow> None)
         | _ \<Rightarrow> None)
      else
        (case parse_formula s of
           Some e \<Rightarrow> map_option (\<lambda>r. (r, w)) (eval_expr e c w)
         | None \<Rightarrow> None))"

text \<open>Outside the table the engine of the examples reports that it has no answer.\<close>

definition js_call :: "string \<Rightarrow> data \<Rightarrow> js_world \<Rightarrow> outcome \<times> js_world" where
  "js_call s c w =
     (case js_table s c w of
        Some r \<Rightarrow> r
      | None \<Rightarrow> (Throws (ErrorObj ''formula outside the table''), w))"

text \<open>
  Assignments to a name that \<^verbatim>\<open>finalData\<close> does not have, as long as no formula has
  changed \<^verbatim>\<open>Object.prototype\<close> (the global state of the examples cannot express such
  a change): the setter \<^verbatim>\<open>__proto__\<close> takes the assignments to that name unless the
  prototype of \<^verbatim>\<open>finalData\<close> has become \<^verbatim>\<open>null\<close>; every other name is created
  (a prototype that has replaced \<^verbatim>\<open>Object.prototype\<close> is an array of strings here,
  which has no setter and no read-only property to inherit).
\<close>

fun is_object :: "jsval \<Rightarrow> bool" where
  "is_object (JRef a) = True"
| "is_object JNull = True"
| "is_object v = False"

definition js_put :: "jsval option \<Rightarrow> string \<Rightarrow> jsval \<Rightarrow> js_world \<Rightarrow> put_outcome \<times> js_world" where
  "js_put p n v w =
     (if n = ''__proto__'' \<and> p \<noteq> Some JNull
      then (if is_object v then Reparented else Swallowed, w)
      else (Created, w))"

definition js_engine :: "js_world engine" where
  "js_engine = \<lparr>call = js_call, put = js_put\<rparr>"

section \<open>Template creation\<close>

text \<open>
  A row of the field editor of \<^verbatim>\<open>CreateTemplateModal\<close>. \<^verbatim>\<open>addField\<close> creates it
  with an empty name, type \<^verbatim>\<open>string\<close> and the empty string as options, and
  \<^verbatim>\<open>updateField\<close> writes strings into it; the key \<^verbatim>\<open>formula\<close> is absent until
  the formula editor saves one.
\<close>

record draft =
  d_name :: string
  d_type :: field_type
  d_options :: string
  d_formula :: "string property"

text \<open>
  \<^verbatim>\<open>options.split(',').map(opt => opt.trim())\<close>. Splitting the empty string gives one
  empty piece. Characters are code units below 256; the blanks among them are the tab,
  the line and page breaks, the space and the no-break space.
\<close>

fun split_comma :: "string \<Rightarrow> string list" where
  "split_comma [] = [[]]"
| "split_comma (c # cs) =
     (if c = CHR '','' then [] # split_comma cs
      else (case split_comma cs of
              [] \<Rightarrow> [[c]]
            | p # ps \<Rightarrow> (c # p) # ps))"

definition is_blank :: "char \<Rightarrow> bool" where
  "is_blank c = (c \<in> set [CHR 0x09, CHR 0x0A, CHR 0x0B, CHR 0x0C, CHR 0x0D, CHR 0x20, CHR 0xA0])"

definition trim :: "string \<Rightarrow> string" where
  "trim s = rev (dropWhile is_blank (rev (dropWhile is_blank s)))"

text \<open>
  The callback of \<^verbatim>\<open>fields.map\<close> in \<^verbatim>\<open>handleSubmit\<close> (lines 64 to 76). The
  destructuring reads an absent \<^verbatim>\<open>formula\<close> as \<^verbatim>\<open>undefined\<close>, and the object
  literal \<^verbatim>\<open>{ formula }\<close> creates the key with that value.
\<close>

definition cleanField :: "draft \<Rightarrow> field" where
  "cleanField f =
     \<lparr>name = d_name f,
      ftype = d_type f,
      options =
        (if d_type f = TSelect \<or> d_type f = TMultiselect
         then Value (map trim (split_comma (d_options f)))
         else Absent),
      formula =
        (if d_type f = TComputed
         then (case d_formula f of Value s \<Rightarrow> Value s | _ \<Rightarrow> Undefined)
         else Absent)\<rparr>"

definition cleanFields :: "draft list \<Rightarrow> field list" where
  "cleanFields rows = map cleanField rows"

text \<open>
  \<^verbatim>\<open>JSON.stringify(payload)\<close> (line 87) writes the schema that is sent. It leaves out
  a key whose value is \<^verbatim>\<open>undefined\<close>, so the entry that reaches the server has no
  such key.
\<close>

definition serialised :: "'a property \<Rightarrow> 'a property" where
  "serialised p = (case p of Undefined \<Rightarrow> Absent | _ \<Rightarrow> p)"

definition sent :: "field \<Rightarrow> field" where
  "sent e = e\<lparr>options := serialised (options e), formula := serialised (formula e)\<rparr>"

definition sent_schema :: "draft list \<Rightarrow> field list" where
  "sent_schema rows = map sent (cleanFields rows)"

section \<open>Notions used in the statements\<close>

text \<open>Schema entries of the examples.\<close>

definition computed :: "string \<Rightarrow> string \<Rightarrow> field" where
  "computed n src = \<lparr>name = n, ftype = TComputed, options = Absent, formula = Value src\<rparr>"

definition plain :: "string \<Rightarrow> field_type \<Rightarrow> field" where
  "plain n t = \<lparr>name = n, ftype = t, options = Absent, formula = Absent\<rparr>"


fun stored :: "outcome \<Rightarrow> jsval" where
  "stored (Returns v) = v"
| "stored (Throws (ErrorObj m)) = error_marker m"
| "stored (Throws Nullish) = JUndefined"

text \<open>
  A plain assignment is one that does what it looks like. \<open>creates eng p n\<close>: on an
  object with prototype \<open>p\<close> that has no own property \<open>n\<close>, assigning to \<open>n\<close>
  creates the property and does nothing else (with \<open>p = None\<close>: on data whose
  prototype has not been replaced); so it is for every name but \<^verbatim>\<open>__proto__\<close> in
  the engine of the examples. \<open>stores_plainly\<close>: in the state \<open>st\<close> the assignment
  to \<open>n\<close> is a plain one, it updates an own property or creates one.
\<close>

definition creates :: "'w engine \<Rightarrow> jsval option \<Rightarrow> string \<Rightarrow> bool" where
  "creates eng p n = (\<forall>v w. put eng p n v w = (Created, w))"

definition stores_plainly :: "'w engine \<Rightarrow> 'w pass_state \<Rightarrow> string \<Rightarrow> bool" where
  "stores_plainly eng st n = (n \<in> own_keys (finalData st) \<or> creates eng (proto st) n)"












section \<open>Basic facts about the loop\<close>


lemma evaluate_field_skip:
  "\<not> has_formula f \<Longrightarrow> evaluate_field eng f st = Inr st"
  by (simp add: evaluate_field_def)

lemma evaluate_fields_no_formula:
  "\<forall>f \<in> set fs. \<not> has_formula f \<Longrightarrow> evaluate_fields eng fs st = Inr st"
  by (induction fs) (simp_all add: evaluate_field_skip)

lemma evaluate_fields_filter:
  "evaluate_fields eng (filter has_formula fs) st = evaluate_fields eng fs st"
  by (induction fs arbitrary: st) (auto simp: evaluate_field_skip split: sum.splits)

lemma update_absent:
  "n \<notin> own_keys d \<Longrightarrow> AList.update n v d = d @ [(n, v)]"
  by (induction d) (auto simp: own_keys_def)

lemma own_keys_update: "own_keys (AList.update n v d) = insert n (own_keys d)"
  by (simp add: own_keys_def dom_update)



lemma store_plain:
  assumes "stores_plainly eng st n"
  shows "store eng st n v = Inr (st\<lparr>finalData := AList.update n v (finalData st)\<rparr>)"
proof (cases "n \<in> own_keys (finalData st)")
  case True
  then show ?thesis by (simp add: store_def)
next
  case False
  with assms have "put eng (proto st) n v (world st) = (Created, world st)"
    by (simp add: stores_plainly_def creates_def)
  with False show ?thesis by (simp add: store_def update_absent)
qed

lemma store_cases:
  assumes "store eng st n v = Inr st'"
  shows "finalData st' = AList.update n v (finalData st) \<or> finalData st' = finalData st"
    and "uiError st' = uiError st"
  using assms
  by (auto simp: store_def update_absent split: if_splits prod.splits put_outcome.splits)

lemma store_result:
  assumes "store eng st n v = Inr st'"
  shows "uiError st' = uiError st"
    and "\<And>k. k \<noteq> n \<Longrightarrow> map_of (finalData st') k = map_of (finalData st) k"
    and "own_keys (finalData st) \<subseteq> own_keys (finalData st')"
  using store_cases [OF assms]
  by (auto simp: update_conv' own_keys_update)

lemma caught_result:
  assumes "caught eng f st e = Inr st'"
  shows "\<And>k. k \<noteq> name f \<Longrightarrow> map_of (finalData st') k = map_of (finalData st) k"
    and "own_keys (finalData st) \<subseteq> own_keys (finalData st')"
proof -
  from assms obtain m where
    s: "store eng (st\<lparr>uiError := Some (ui_message (name f) m)\<rparr>) (name f) (error_marker m) = Inr st'"
    by (auto simp: caught_def split: thrown.splits sum.splits)
  from store_result(2) [OF s] show "\<And>k. k \<noteq> name f \<Longrightarrow> map_of (finalData st') k = map_of (finalData st) k"
    by simp
  from store_result(3) [OF s] show "own_keys (finalData st) \<subseteq> own_keys (finalData st')"
    by simp
qed

lemma evaluate_field_result:
  assumes "evaluate_field eng f st = Inr st'"
  shows "\<And>k. k \<noteq> name f \<Longrightarrow> map_of (finalData st') k = map_of (finalData st) k"
    and "own_keys (finalData st) \<subseteq> own_keys (finalData st')"
proof -
  have "(\<forall>k. k \<noteq> name f \<longrightarrow> map_of (finalData st') k = map_of (finalData st) k)
        \<and> own_keys (finalData st) \<subseteq> own_keys (finalData st')"
  proof (cases "has_formula f")
    case False
    with assms show ?thesis by (simp add: evaluate_field_skip)
  next
    case True
    obtain out w where c: "call eng (formula_src f) (finalData st) (world st) = (out, w)"
      by (cases "call eng (formula_src f) (finalData st) (world st)")
    show ?thesis
    proof (cases out)
      case (Throws e)
      with True c assms have "caught eng f (st\<lparr>world := w\<rparr>) e = Inr st'"
        by (simp add: evaluate_field_def)
      from caught_result [OF this] show ?thesis by simp
    next
      case (Returns v)
      show ?thesis
      proof (cases "store eng (st\<lparr>world := w\<rparr>) (name f) v")
        case (Inr s)
        with True c Returns assms have "s = st'" by (simp add: evaluate_field_def)
        with store_result(2,3) [OF Inr] show ?thesis by simp
      next
        case (Inl r)
        obtain e w' where "r = (e, w')" by (cases r)
        with Inl True c Returns assms have "caught eng f (st\<lparr>world := w'\<rparr>) e = Inr st'"
          by (simp add: evaluate_field_def)
        from caught_result [OF this] show ?thesis by simp
      qed
    qed
  qed
  then show "\<And>k. k \<noteq> name f \<Longrightarrow> map_of (finalData st') k = map_of (finalData st) k"
    and "own_keys (finalData st) \<subseteq> own_keys (finalData st')"
    by simp_all
qed


lemma evaluate_fields_keys:
  assumes "evaluate_fields eng fs st = Inr st'"
  shows "own_keys (finalData st) \<subseteq> own_keys (finalData st')"
  using assms
proof (induction fs arbitrary: st)
  case Nil
  then show ?case by simp
next
  case (Cons f fs)
  from Cons.prems obtain st1 where
    s1: "evaluate_field eng f st = Inr st1" and s2: "evaluate_fields eng fs st1 = Inr st'"
    by (auto split: sum.splits)
  from evaluate_field_result(2) [OF s1] Cons.IH [OF s2] show ?case by blast
qed

text \<open>The callback when the assignment is a plain one.\<close>

lemma evaluate_field_plain:
  assumes "has_formula f" and "stores_plainly eng st (name f)"
    and "call eng (formula_src f) (finalData st) (world st) = (out, w1)"
  shows "evaluate_field eng f st =
           (if out = Throws Nullish then Inl TypeError
            else Inr (st\<lparr>finalData := AList.update (name f) (stored out) (finalData st),
                         uiError := (case out of
                                       Throws (ErrorObj m) \<Rightarrow> Some (ui_message (name f) m)
                                     | _ \<Rightarrow> uiError st),
                         world := w1\<rparr>))"
proof -
  have p: "stores_plainly eng (st\<lparr>world := w1\<rparr>) (name f)"
    "\<And>u. stores_plainly eng (st\<lparr>world := w1, uiError := u\<rparr>) (name f)"
    using assms(2) by (simp_all add: stores_plainly_def)
  show ?thesis
  proof (cases out)
    case (Returns v)
    with assms(1,3) store_plain [OF p(1)] show ?thesis
      by (simp add: evaluate_field_def)
  next
    case (Throws e)
    with assms(1,3) store_plain [OF p(2)] show ?thesis
      by (cases e) (simp_all add: evaluate_field_def caught_def)
  qed
qed

lemma evaluate_field_plain_proto:
  assumes "stores_plainly eng st (name f)" and "evaluate_field eng f st = Inr st'"
  shows "proto st' = proto st"
proof (cases "has_formula f")
  case False
  with assms(2) show ?thesis by (simp add: evaluate_field_skip)
next
  case True
  obtain out w1 where c: "call eng (formula_src f) (finalData st) (world st) = (out, w1)"
    by (cases "call eng (formula_src f) (finalData st) (world st)")
  from evaluate_field_plain [OF True assms(1) c] assms(2) show ?thesis
    by (auto split: if_splits)
qed

text \<open>Evaluation lemmas for the engine and the schemas of the examples.\<close>

lemmas engine_defs =
  js_engine_def js_call_def js_put_def js_table_def parse_formula_def throw_null_def
  count_calls_def reverse_tags_def example_names_def lookup_var_def js_add_def js_mul_def
  prim_add_def arith_def digits.simps show_int_def safe_int_def numeric_char_def pristine_def

lemmas pass_defs =
  handleSubmit_data_def evaluate_field_def caught_def store_def own_keys_def has_formula_def
  formula_src_def error_marker_def

lemma js_engine_creates: "n \<noteq> ''__proto__'' \<Longrightarrow> creates js_engine None n"
  by (simp add: creates_def js_engine_def js_put_def)




section \<open>An exception that leaves the loop\<close>

text \<open>
  C1. The \<^verbatim>\<open>catch\<close> block reads \<^verbatim>\<open>e.message\<close>. A formula that throws \<^verbatim>\<open>null\<close>
  makes that read raise a TypeError inside the \<^verbatim>\<open>catch\<close> block, which leaves the
  loop and \<^verbatim>\<open>handleSubmit\<close>: the field gets no entry and the computed field declared
  after it is never evaluated.
\<close>

theorem nullish_throw_leaves_the_loop:
  "handleSubmit_data js_engine [computed ''x'' throw_null, computed ''total'' ''a + b'']
       [(''a'', JNum 2), (''b'', JNum 3)] None pristine = Inl TypeError"
  by (simp add: computed_def pass_defs engine_defs)

text \<open>
  Short of that case the loop does contain every failure: when no formula of the schema
  throws a nullish value and the assignments to the computed fields are plain ones, the
  pass completes and every computed field with a formula has an entry.
\<close>

lemma evaluate_field_completes:
  assumes "\<forall>c w. fst (call eng (formula_src f) c w) \<noteq> Throws Nullish"
    and "has_formula f \<longrightarrow> creates eng None (name f)"
    and "proto st = None"
  shows "\<exists>st'. evaluate_field eng f st = Inr st' \<and> proto st' = None \<and>
           own_keys (finalData st) \<subseteq> own_keys (finalData st') \<and>
           (has_formula f \<longrightarrow> name f \<in> own_keys (finalData st'))"
proof (cases "has_formula f")
  case False
  with assms(3) show ?thesis by (simp add: evaluate_field_skip)
next
  case True
  obtain out w1 where c: "call eng (formula_src f) (finalData st) (world st) = (out, w1)"
    by (cases "call eng (formula_src f) (finalData st) (world st)")
  with assms(1) [rule_format, of "finalData st" "world st"] have ok: "out \<noteq> Throws Nullish"
    by simp
  from True assms(2,3) have p: "stores_plainly eng st (name f)"
    by (simp add: stores_plainly_def)
  from evaluate_field_plain [OF True p c] ok assms(3) show ?thesis
    by (auto simp: own_keys_update)
qed

lemma pass_completes_without_nullish_throw:
  assumes "\<forall>f \<in> set schema. \<forall>c w. fst (call eng (formula_src f) c w) \<noteq> Throws Nullish"
    and "\<forall>f \<in> set schema. has_formula f \<longrightarrow> creates eng None (name f)"
    and "proto st = None"
  shows "\<exists>st'. evaluate_fields eng schema st = Inr st' \<and> proto st' = None \<and>
           own_keys (finalData st) \<subseteq> own_keys (finalData st') \<and>
           (\<forall>f \<in> set schema. has_formula f \<longrightarrow> name f \<in> own_keys (finalData st'))"
  using assms
proof (induction schema arbitrary: st)
  case Nil
  then show ?case by simp
next
  case (Cons f fs)
  from Cons.prems have "\<forall>c w. fst (call eng (formula_src f) c w) \<noteq> Throws Nullish"
    and "has_formula f \<longrightarrow> creates eng None (name f)"
    by simp_all
  from evaluate_field_completes [OF this Cons.prems(3)] obtain st1 where
    a: "evaluate_field eng f st = Inr st1" and b: "proto st1 = None"
    and c: "own_keys (finalData st) \<subseteq> own_keys (finalData st1)"
    and d: "has_formula f \<longrightarrow> name f \<in> own_keys (finalData st1)"
    by blast
  from Cons.prems have "\<forall>g \<in> set fs. \<forall>c w. fst (call eng (formula_src g) c w) \<noteq> Throws Nullish"
    and "\<forall>g \<in> set fs. has_formula g \<longrightarrow> creates eng None (name g)"
    by simp_all
  from Cons.IH [OF this b] obtain st2 where
    e: "evaluate_fields eng fs st1 = Inr st2" and f: "proto st2 = None"
    and g: "own_keys (finalData st1) \<subseteq> own_keys (finalData st2)"
    and h: "\<forall>g \<in> set fs. has_formula g \<longrightarrow> name g \<in> own_keys (finalData st2)"
    by blast
  from a e have "evaluate_fields eng (f # fs) st = Inr st2" by simp
  moreover from c g have "own_keys (finalData st) \<subseteq> own_keys (finalData st2)" by blast
  moreover from d g h have
    "\<forall>g \<in> set (f # fs). has_formula g \<longrightarrow> name g \<in> own_keys (finalData st2)"
    by auto
  ultimately show ?case using f by blast
qed

section \<open>Fields that reference each other\<close>




section \<open>The order of the fields\<close>










section \<open>A field that reads a failed field\<close>




section \<open>A formula that names an unbound identifier\<close>








section \<open>Determinism and state\<close>








section \<open>The error string\<close>


text \<open>
  Nor does a field named \<^verbatim>\<open>__proto__\<close> get its error string: the assignment goes to
  the setter of \<^verbatim>\<open>Object.prototype\<close>, which discards a string, and the data have no
  entry of that name.
\<close>

lemma proto_name_gets_no_entry:
  "handleSubmit_data js_engine [computed ''__proto__'' ''c''] [(''a'', JNum 1)] None pristine =
     Inr \<lparr>finalData = [(''a'', JNum 1)],
          uiError = Some (ui_message ''__proto__'' ''c is not defined''),
          world = pristine, proto = None\<rparr>"
  by (simp add: computed_def pass_defs engine_defs)



section \<open>Schemas without computed fields\<close>

text \<open>
  C8. When no field of the schema has type \<^verbatim>\<open>computed\<close>, the pass returns the
  supplied field values as they are: no entry is added, removed or changed, nor is the
  order of the keys. It also leaves the error shown and the global state as they were,
  whatever the engine.
\<close>

theorem no_computed_fields_identity:
  assumes "\<forall>f \<in> set schema. ftype f \<noteq> TComputed"
  shows "handleSubmit_data eng schema formData ui w =
           Inr \<lparr>finalData = formData, uiError = ui, world = w, proto = None\<rparr>"
proof -
  from assms have "\<forall>f \<in> set schema. \<not> has_formula f"
    by (simp add: has_formula_def)
  then show ?thesis
    unfolding handleSubmit_data_def by (rule evaluate_fields_no_formula)
qed

theorem no_computed_fields_identity_witness:
  "handleSubmit_data js_engine [plain ''a'' TNumber, plain ''b'' TString]
       [(''a'', JNum 2), (''b'', JStr ''two'')] None pristine =
     Inr \<lparr>finalData = [(''a'', JNum 2), (''b'', JStr ''two'')], uiError = None,
          world = pristine, proto = None\<rparr>"
  by (rule no_computed_fields_identity) (simp add: plain_def)

section \<open>The entries template creation builds\<close>

text \<open>
  C9 as stated fails: template creation does not check that a computed field has a
  formula. A row set to the type \<^verbatim>\<open>computed\<close> for which no formula was saved gives
  an object whose key \<^verbatim>\<open>formula\<close> holds \<^verbatim>\<open>undefined\<close>; the schema that is sent has
  no such key, and the entry is a computed field without a formula, which the evaluation
  pass skips.
\<close>

theorem computed_without_formula_counterexample:
  "cleanFields [\<lparr>d_name = ''power'', d_type = TComputed, d_options = [], d_formula = Absent\<rparr>] =
     [\<lparr>name = ''power'', ftype = TComputed, options = Absent, formula = Undefined\<rparr>]
   \<and> sent_schema [\<lparr>d_name = ''power'', d_type = TComputed, d_options = [], d_formula = Absent\<rparr>] =
     [\<lparr>name = ''power'', ftype = TComputed, options = Absent, formula = Absent\<rparr>]
   \<and> \<not> has_formula \<lparr>name = ''power'', ftype = TComputed, options = Absent, formula = Absent\<rparr>"
  by (simp add: sent_schema_def sent_def serialised_def cleanFields_def cleanField_def
      has_formula_def)

text \<open>
  C9 as amended: for every row of the editor, the entry of the schema that is sent has
  the type of the row; it has the key \<^verbatim>\<open>formula\<close> exactly when the type is
  \<^verbatim>\<open>computed\<close> and a formula was saved for the row, and the key then holds that
  text; it has the key \<^verbatim>\<open>options\<close> exactly when the type is \<^verbatim>\<open>select\<close> or
  \<^verbatim>\<open>multiselect\<close>.
\<close>

theorem sent_schema_invariant:
  "sent_schema rows = map (\<lambda>r. sent (cleanField r)) rows
   \<and> (\<forall>r \<in> set rows.
        ftype (sent (cleanField r)) = d_type r
        \<and> (\<forall>s. formula (sent (cleanField r)) = Value s \<longleftrightarrow>
                 d_type r = TComputed \<and> d_formula r = Value s)
        \<and> (formula (sent (cleanField r)) \<noteq> Absent \<longleftrightarrow>
             d_type r = TComputed \<and> (\<exists>s. d_formula r = Value s))
        \<and> (options (sent (cleanField r)) \<noteq> Absent \<longleftrightarrow>
             d_type r = TSelect \<or> d_type r = TMultiselect))"
  by (auto simp: sent_schema_def cleanFields_def sent_def serialised_def cleanField_def
      split: property.splits)

theorem sent_schema_invariant_witness:
  "formula (sent (cleanField \<lparr>d_name = ''power'', d_type = TComputed, d_options = [],
       d_formula = Value ''a + b''\<rparr>)) = Value ''a + b''
   \<and> formula (sent (cleanField \<lparr>d_name = ''kind'', d_type = TSelect,
       d_options = ''fire, water'', d_formula = Value ''a''\<rparr>)) = Absent
   \<and> options (sent (cleanField \<lparr>d_name = ''kind'', d_type = TSelect,
       d_options = ''fire, water'', d_formula = Value ''a''\<rparr>)) \<noteq> Absent"
proof -
  let ?f = "\<lparr>d_name = ''power'', d_type = TComputed, d_options = [], d_formula = Value ''a + b''\<rparr>"
  let ?g = "\<lparr>d_name = ''kind'', d_type = TSelect, d_options = ''fire, water'',
             d_formula = Value ''a''\<rparr>"
  from sent_schema_invariant [of "[?f, ?g]"] have
    f: "\<forall>s. formula (sent (cleanField ?f)) = Value s \<longleftrightarrow>
              d_type ?f = TComputed \<and> d_formula ?f = Value s"
    and g1: "formula (sent (cleanField ?g)) \<noteq> Absent \<longleftrightarrow>
              d_type ?g = TComputed \<and> (\<exists>s. d_formula ?g = Value s)"
    and g2: "options (sent (cleanField ?g)) \<noteq> Absent \<longleftrightarrow>
              d_type ?g = TSelect \<or> d_type ?g = TMultiselect"
    by simp_all
  from f have "formula (sent (cleanField ?f)) = Value ''a + b''" by simp
  moreover from g1 have "formula (sent (cleanField ?g)) = Absent" by simp
  moreover from g2 have "options (sent (cleanField ?g)) \<noteq> Absent" by simp
  ultimately show ?thesis by blast
qed

text \<open>The options are the trimmed pieces of the text typed.\<close>

lemma clean_field_examples:
  "cleanField \<lparr>d_name = ''kind'', d_type = TSelect, d_options = ''fire, water'',
       d_formula = Value ''a''\<rparr> =
     \<lparr>name = ''kind'', ftype = TSelect, options = Value [''fire'', ''water''], formula = Absent\<rparr>"
  by (simp add: cleanField_def trim_def is_blank_def)

section \<open>The fields the pass does not write\<close>




end
